theory Spec2Isabelle
  imports Complex_Main
begin

section \<open>Data model\<close>

text \<open>
  The executor and mesh compiler of \<^verbatim>\<open>jscadExecutor\<close> (\<^verbatim>\<open>executeJSCAD\<close>,
  \<^verbatim>\<open>convertToThreeGeometry\<close>, \<^verbatim>\<open>createFallbackGeometry\<close>) and its caller
  \<^verbatim>\<open>loadModel\<close> of the model viewer.

  JavaScript numbers are modelled as \<^typ>\<open>real\<close>: rounding of IEEE doubles, and of the
  single-precision \<^verbatim>\<open>Float32Array\<close> the buffers end in, is not modelled. Buffer lengths
  and indices do not depend on it, and the concrete coordinates evaluated below
  (0, 1, 2 and 5) are computed exactly by the floating-point operations too.
  Counters and indices (\<^verbatim>\<open>vertexIndex\<close>, array lengths) are natural numbers.
\<close>

type_synonym vec3 = "real \<times> real \<times> real"

definition c0 :: "vec3 \<Rightarrow> real" where "c0 v = fst v"
definition c1 :: "vec3 \<Rightarrow> real" where "c1 v = fst (snd v)"
definition c2 :: "vec3 \<Rightarrow> real" where "c2 v = snd (snd v)"

text \<open>A polygon as the compiler reads it: \<^verbatim>\<open>polygon.vertices\<close> (possibly undefined),
  \<^verbatim>\<open>polygon.plane\<close> (possibly undefined) and \<^verbatim>\<open>polygon.plane.normal\<close> (possibly
  undefined).\<close>

record plane =
  plane_normal :: "vec3 option"

record polygon =
  polygon_vertices :: "vec3 list option"
  polygon_plane :: "plane option"

text \<open>Exceptions: an \<^verbatim>\<open>Error\<close> with its message, a \<^verbatim>\<open>TypeError\<close> raised by the engine
  (with the engine's message), or a thrown value that is no \<^verbatim>\<open>Error\<close> instance.\<close>

datatype error = Error string | TypeError string | ThrownValue

text \<open>What \<^verbatim>\<open>main()\<close> returns. \<^verbatim>\<open>jscad.geometries.geom3.toPolygons\<close> belongs to the
  modelling library: on a 3-D solid it yields the solid's polygons, on any other value the
  property reads inside it (or the iteration over its result) raise a \<^verbatim>\<open>TypeError\<close>.\<close>

datatype jscad_geometry = Geom3 "polygon list" | NotGeom3

definition toPolygons :: "jscad_geometry \<Rightarrow> error + polygon list" where
  "toPolygons g =
     (case g of
        Geom3 ps \<Rightarrow> Inr ps
      | NotGeom3 \<Rightarrow> Inl (TypeError ''Cannot read properties of undefined''))"

text \<open>The three accumulating arrays and the running counter of the compiler.\<close>

record buffers =
  vertices :: "real list"
  normals :: "real list"
  indices :: "nat list"
  vertexIndex :: nat

text \<open>A \<^verbatim>\<open>BufferGeometry\<close>: the position and normal attributes (item size 3) and the
  optional index. The bounding box and sphere are derived from the position attribute by
  the rendering library and are not part of the model.\<close>

record BufferGeometry =
  position :: "real list"
  normal :: "real list"
  index :: "nat list option"

section \<open>Mesh compiler\<close>

text \<open>\<^verbatim>\<open>polygon.vertices || []\<close>\<close>

definition polyVertices :: "polygon \<Rightarrow> vec3 list" where
  "polyVertices polygon =
     (case polygon_vertices polygon of None \<Rightarrow> [] | Some vs \<Rightarrow> vs)"

text \<open>The \<^verbatim>\<open>else\<close> branch of the normal calculation: the cross product of the two edge
  vectors from the first vertex, divided by its length when that is positive.\<close>

definition crossNormal :: "vec3 \<Rightarrow> vec3 \<Rightarrow> vec3 \<Rightarrow> vec3" where
  "crossNormal v1 v2 v3 =
     (let a = (c0 v2 - c0 v1, c1 v2 - c1 v1, c2 v2 - c2 v1);
          b = (c0 v3 - c0 v1, c1 v3 - c1 v1, c2 v3 - c2 v1);
          n = (c1 a * c2 b - c2 a * c1 b,
               c2 a * c0 b - c0 a * c2 b,
               c0 a * c1 b - c1 a * c0 b);
          len = sqrt (c0 n * c0 n + c1 n * c1 n + c2 n * c2 n)
      in if len > 0 then (c0 n / len, c1 n / len, c2 n / len) else n)"

text \<open>The normal of a polygon with at least three vertices. The initial value
  \<^verbatim>\<open>[0, 0, 1]\<close> of the variable is overwritten on both branches.\<close>

definition faceNormal :: "polygon \<Rightarrow> vec3" where
  "faceNormal polygon =
     (case (case polygon_plane polygon of None \<Rightarrow> None | Some pl \<Rightarrow> plane_normal pl) of
        Some n \<Rightarrow> n
      | None \<Rightarrow>
          crossNormal (polyVertices polygon ! 0) (polyVertices polygon ! 1)
            (polyVertices polygon ! 2))"

text \<open>The body of the triangulation loop at index \<open>i\<close>.\<close>

definition emitTriangle :: "vec3 list \<Rightarrow> vec3 \<Rightarrow> nat \<Rightarrow> buffers \<Rightarrow> buffers" where
  "emitTriangle pv n i st =
     (let v0 = pv ! 0; v1 = pv ! i; v2 = pv ! (i + 1)
      in \<lparr> vertices = vertices st @ [c0 v0, c1 v0, c2 v0] @ [c0 v1, c1 v1, c2 v1]
                         @ [c0 v2, c1 v2, c2 v2],
           normals = normals st @ [c0 n, c1 n, c2 n] @ [c0 n, c1 n, c2 n]
                       @ [c0 n, c1 n, c2 n],
           indices = indices st @ [vertexIndex st, vertexIndex st + 1, vertexIndex st + 2],
           vertexIndex = vertexIndex st + 3 \<rparr>)"

text \<open>\<^verbatim>\<open>for (let i = 1; i < polyVertices.length - 1; i++)\<close>, entered at \<open>i\<close>.\<close>

function fanLoop :: "vec3 list \<Rightarrow> vec3 \<Rightarrow> nat \<Rightarrow> buffers \<Rightarrow> buffers" where
  "fanLoop pv n i st =
     (if i < length pv - 1 then fanLoop pv n (i + 1) (emitTriangle pv n i st) else st)"
  by pat_completeness auto
termination
  by (relation "measure (\<lambda>(pv, n, i, st). length pv - 1 - i)") auto

declare fanLoop.simps [simp del]

text \<open>The body of the loop over the polygons.\<close>

definition processPolygon :: "polygon \<Rightarrow> buffers \<Rightarrow> buffers" where
  "processPolygon polygon st =
     (if length (polyVertices polygon) < 3 then st
      else fanLoop (polyVertices polygon) (faceNormal polygon) 1 st)"

fun polygonLoop :: "polygon list \<Rightarrow> buffers \<Rightarrow> buffers" where
  "polygonLoop [] st = st"
| "polygonLoop (p # ps) st = polygonLoop ps (processPolygon p st)"

definition initBuffers :: buffers where
  "initBuffers = \<lparr> vertices = [], normals = [], indices = [], vertexIndex = 0 \<rparr>"

text \<open>The fallback cube. \<^verbatim>\<open>computeVertexNormals\<close> is a method of the rendering library,
  which is not part of this repository: it is a parameter, applied to the position
  attribute of a geometry without index.\<close>

definition createFallbackGeometry :: "(real list \<Rightarrow> real list) \<Rightarrow> BufferGeometry" where
  "createFallbackGeometry computeVertexNormals =
     (let size = 5 :: real;
          vs = [
            - size, - size, size, size, - size, size, size, size, size,
            - size, - size, size, size, size, size, - size, size, size,
            - size, - size, - size, - size, size, - size, size, size, - size,
            - size, - size, - size, size, size, - size, size, - size, - size,
            - size, size, - size, - size, size, size, size, size, size,
            - size, size, - size, size, size, size, size, size, - size,
            - size, - size, - size, size, - size, - size, size, - size, size,
            - size, - size, - size, size, - size, size, - size, - size, size,
            size, - size, - size, size, size, - size, size, size, size,
            size, - size, - size, size, size, size, size, - size, size,
            - size, - size, - size, - size, - size, size, - size, size, size,
            - size, - size, - size, - size, size, size, - size, size, - size]
      in \<lparr> position = vs, normal = computeVertexNormals vs, index = None \<rparr>)"

text \<open>The \<^verbatim>\<open>try\<close> block of \<^verbatim>\<open>convertToThreeGeometry\<close>. \<^verbatim>\<open>position.count\<close> is the
  attribute's array length divided by its item size.\<close>

definition convertToThreeGeometry_try :: "jscad_geometry \<Rightarrow> error + BufferGeometry" where
  "convertToThreeGeometry_try jscadGeometry =
     (case toPolygons jscadGeometry of
        Inl e \<Rightarrow> Inl e
      | Inr polygons \<Rightarrow>
          (let st = polygonLoop polygons initBuffers
           in if length (vertices st) = 0
              then Inl (Error ''No valid vertices generated from JSCAD geometry'')
              else
                (let maxIndex = real (length (vertices st)) / 3 - 1;
                     validIndices = filter (\<lambda>idx. real idx \<le> maxIndex) (indices st);
                     geometry = \<lparr> position = vertices st, normal = normals st,
                                  index = (if length validIndices > 0
                                              \<and> length validIndices mod 3 = 0
                                           then Some validIndices else None) \<rparr>
                 in if real (length (position geometry)) / 3 = 0
                    then Inl (Error ''Generated geometry has no vertices'')
                    else Inr geometry)))"

text \<open>\<^verbatim>\<open>convertToThreeGeometry\<close>: the \<^verbatim>\<open>catch\<close> block returns the fallback cube for
  every exception of the \<^verbatim>\<open>try\<close> block.\<close>

definition convertToThreeGeometry ::
  "(real list \<Rightarrow> real list) \<Rightarrow> jscad_geometry \<Rightarrow> BufferGeometry" where
  "convertToThreeGeometry computeVertexNormals jscadGeometry =
     (case convertToThreeGeometry_try jscadGeometry of
        Inl e \<Rightarrow> createFallbackGeometry computeVertexNormals
      | Inr geometry \<Rightarrow> geometry)"

section \<open>Sandbox executor\<close>

text \<open>Values of the evaluated program. A function value carries the outcome of calling it
  without arguments: the value it returns or the exception it raises. An object is the
  list of its own properties, the first binding of a key being the effective one;
  inherited properties, properties of function values and the built-in properties of
  primitive values are not modelled.\<close>

datatype jsval =
    Undefined
  | Null
  | Bool bool
  | Num real
  | Str string
  | Obj "(string \<times> jsval) list"
  | Func "error + jscad_geometry"

text \<open>\<^verbatim>\<open>obj[key]\<close>: reading a property of \<^verbatim>\<open>undefined\<close> or \<^verbatim>\<open>null\<close> raises a
  \<^verbatim>\<open>TypeError\<close>, a missing property reads as \<^verbatim>\<open>undefined\<close>.\<close>

definition get_prop :: "jsval \<Rightarrow> string \<Rightarrow> error + jsval" where
  "get_prop obj key =
     (case obj of
        Undefined \<Rightarrow> Inl (TypeError ''Cannot read properties of undefined'')
      | Null \<Rightarrow> Inl (TypeError ''Cannot read properties of null'')
      | Obj props \<Rightarrow> (case map_of props key of None \<Rightarrow> Inr Undefined | Some v \<Rightarrow> Inr v)
      | _ \<Rightarrow> Inr Undefined)"

text \<open>Truthiness, as \<^verbatim>\<open>||\<close> tests it.\<close>

definition truthy :: "jsval \<Rightarrow> bool" where
  "truthy v =
     (case v of
        Undefined \<Rightarrow> False
      | Null \<Rightarrow> False
      | Bool b \<Rightarrow> b
      | Num x \<Rightarrow> x \<noteq> 0
      | Str s \<Rightarrow> s \<noteq> []
      | Obj props \<Rightarrow> True
      | Func r \<Rightarrow> True)"

text \<open>\<^verbatim>\<open>typeof v === 'function'\<close>\<close>

definition callable :: "jsval \<Rightarrow> bool" where
  "callable v = (case v of Func r \<Rightarrow> True | _ \<Rightarrow> False)"

text \<open>\<^verbatim>\<open>String.prototype.split\<close> at a separator character and
  \<^verbatim>\<open>String.prototype.startsWith\<close>.\<close>

fun split :: "char \<Rightarrow> string \<Rightarrow> string list" where
  "split sep [] = [[]]"
| "split sep (c # cs) =
     (if c = sep then [] # split sep cs
      else (case split sep cs of [] \<Rightarrow> [[c]] | part # parts \<Rightarrow> (c # part) # parts))"

definition startsWith :: "string \<Rightarrow> string \<Rightarrow> bool" where
  "startsWith s pre = (take (length pre) s = pre)"

text \<open>The loop \<^verbatim>\<open>for (let i = 2; i < parts.length; i++) obj = obj[parts[i]]\<close> over the
  remaining parts.\<close>

fun walk :: "string list \<Rightarrow> jsval \<Rightarrow> error + jsval" where
  "walk [] obj = Inr obj"
| "walk (part # parts) obj =
     (case get_prop obj part of Inl e \<Rightarrow> Inl e | Inr v \<Rightarrow> walk parts v)"

text \<open>\<^verbatim>\<open>sandbox.require\<close>. The namespace object \<open>jscad\<close> of the modelling library is a
  parameter.\<close>

definition sandbox_require :: "jsval \<Rightarrow> string \<Rightarrow> error + jsval" where
  "sandbox_require jscad moduleName =
     (if moduleName = ''@jscad/modeling'' then Inr jscad
      else if startsWith moduleName ''@jscad/modeling/''
      then walk (drop 2 (split CHR ''/'' moduleName)) jscad
      else Inl (Error (''Module '' @ moduleName @ '' not found'')))"

text \<open>The program text is represented by what evaluating it in the sandbox does: given
  \<^verbatim>\<open>require\<close>, it either raises, or finishes and leaves a value in
  \<^verbatim>\<open>sandbox.module.exports\<close> (which the program may replace) and properties on the object
  \<^verbatim>\<open>sandbox.exports\<close> (which it can only fill).\<close>

datatype run = Throws error | Finished jsval "(string \<times> jsval) list"

type_synonym program = "(string \<Rightarrow> error + jsval) \<Rightarrow> run"

text \<open>\<^verbatim>\<open>executeJSCAD\<close>. Its \<^verbatim>\<open>catch\<close> block logs the exception and throws it again, so every
  exception of the body is the function's failure.\<close>

definition executeJSCAD ::
  "jsval \<Rightarrow> (real list \<Rightarrow> real list) \<Rightarrow> program \<Rightarrow> error + BufferGeometry" where
  "executeJSCAD jscad computeVertexNormals code =
     (case code (sandbox_require jscad) of
        Throws e \<Rightarrow> Inl e
      | Finished module_exports exports \<Rightarrow>
          (case get_prop module_exports ''main'' of
             Inl e \<Rightarrow> Inl e
           | Inr m \<Rightarrow>
               (case (if truthy m then Inr m else get_prop (Obj exports) ''main'') of
                  Inl e \<Rightarrow> Inl e
                | Inr mainFunc \<Rightarrow>
                    (if \<not> callable mainFunc
                     then Inl (Error ''No main function found in JSCAD code'')
                     else
                       (case mainFunc of
                          Func outcome \<Rightarrow>
                            (case outcome of
                               Inl e \<Rightarrow> Inl e
                             | Inr jscadGeometry \<Rightarrow>
                                 Inr (convertToThreeGeometry computeVertexNormals
                                        jscadGeometry))
                        | _ \<Rightarrow> Inl (Error ''No main function found in JSCAD code''))))))"

text \<open>\<^verbatim>\<open>loadModel\<close> of the viewer: the two pieces of component state it sets.\<close>

record viewer =
  geometry :: "BufferGeometry option"
  error :: "string option"

definition loadModel ::
  "jsval \<Rightarrow> (real list \<Rightarrow> real list) \<Rightarrow> program \<Rightarrow> viewer" where
  "loadModel jscad computeVertexNormals code =
     (case executeJSCAD jscad computeVertexNormals code of
        Inr result \<Rightarrow> \<lparr> geometry = Some result, error = None \<rparr>
      | Inl err \<Rightarrow>
          \<lparr> geometry = None,
            error = Some (case err of
                            Error msg \<Rightarrow> msg
                          | TypeError msg \<Rightarrow> msg
                          | ThrownValue \<Rightarrow> ''Unknown error'') \<rparr>)"

section \<open>Vocabulary of the properties\<close>

text \<open>The nine position numbers of the triangle (point 0, point \<open>i\<close>, point \<open>i + 1\<close>) of a
  polygon, and the nine normal numbers of a triangle with face normal \<open>n\<close>.\<close>

definition trianglePositions :: "vec3 list \<Rightarrow> nat \<Rightarrow> real list" where
  "trianglePositions pv i =
     [c0 (pv ! 0), c1 (pv ! 0), c2 (pv ! 0),
      c0 (pv ! i), c1 (pv ! i), c2 (pv ! i),
      c0 (pv ! (i + 1)), c1 (pv ! (i + 1)), c2 (pv ! (i + 1))]"

definition triangleNormals :: "vec3 \<Rightarrow> real list" where
  "triangleNormals n = [c0 n, c1 n, c2 n, c0 n, c1 n, c2 n, c0 n, c1 n, c2 n]"

text \<open>The number of triangles the specification expects for a list of polygons:
  \<open>N - 2\<close> for each polygon of \<open>N\<close> points, and none for fewer than 3 points
  (subtraction on \<^typ>\<open>nat\<close> stops at 0).\<close>

definition triangleCount :: "polygon list \<Rightarrow> nat" where
  "triangleCount ps = sum_list (map (\<lambda>p. length (polyVertices p) - 2) ps)"

text \<open>The loop invariant of the compiler: the indices written so far are
  \<open>0, 1, \<dots>, vertexIndex - 1\<close> and both buffers hold three numbers per vertex.\<close>

definition wellFormed :: "buffers \<Rightarrow> bool" where
  "wellFormed st \<longleftrightarrow>
     indices st = [0..<vertexIndex st] \<and>
     length (vertices st) = 3 * vertexIndex st \<and>
     length (normals st) = 3 * vertexIndex st"

text \<open>Concrete inputs: the unit square, three collinear points, a two-point polygon.\<close>

definition unitSquare :: polygon where
  "unitSquare =
     \<lparr> polygon_vertices = Some [(0, 0, 0), (1, 0, 0), (1, 1, 0), (0, 1, 0)],
       polygon_plane = None \<rparr>"

definition unitSquareMesh :: BufferGeometry where
  "unitSquareMesh =
     \<lparr> position = [0, 0, 0, 1, 0, 0, 1, 1, 0, 0, 0, 0, 1, 1, 0, 0, 1, 0],
       normal = [0, 0, 1, 0, 0, 1, 0, 0, 1, 0, 0, 1, 0, 0, 1, 0, 0, 1],
       index = Some [0, 1, 2, 3, 4, 5] \<rparr>"

definition collinear :: polygon where
  "collinear =
     \<lparr> polygon_vertices = Some [(0, 0, 0), (1, 0, 0), (2, 0, 0)], polygon_plane = None \<rparr>"

definition segment :: polygon where
  "segment = \<lparr> polygon_vertices = Some [(0, 0, 0), (1, 0, 0)], polygon_plane = None \<rparr>"

text \<open>Concrete programs and a small library namespace. \<open>emptyExports\<close> is the program
  \<^verbatim>\<open>module.exports = {}\<close>; \<open>shadowedMain\<close> is
  \<^verbatim>\<open>module.exports.main = 1; exports.main = () => square\<close>; \<open>exportsMain\<close> is
  \<^verbatim>\<open>exports.main = () => square\<close>.\<close>

definition sampleLibrary :: jsval where
  "sampleLibrary =
     Obj [(''primitives'', Obj [(''cube'', Func (Inr (Geom3 [unitSquare])))]),
          (''booleans'', Obj [])]"

definition emptyExports :: program where
  "emptyExports = (\<lambda>require. Finished (Obj []) [])"

definition shadowedMain :: program where
  "shadowedMain =
     (\<lambda>require. Finished (Obj [(''main'', Num 1)])
                   [(''main'', Func (Inr (Geom3 [unitSquare])))])"

definition exportsMain :: program where
  "exportsMain =
     (\<lambda>require. Finished (Obj []) [(''main'', Func (Inr (Geom3 [unitSquare])))])"

text \<open>\<open>nullExports\<close> is the program \<^verbatim>\<open>module.exports = null\<close>.\<close>

definition nullExports :: program where
  "nullExports = (\<lambda>require. Finished Null [])"

section \<open>The triangulation loop\<close>

lemma fanLoop_fold:
  "fanLoop pv n i st = fold (emitTriangle pv n) [i..<length pv - 1] st"
proof (induction pv n i st rule: fanLoop.induct)
  case (1 pv n i st)
  show ?case
  proof (cases "i < length pv - 1")
    case True
    then have "[i..<length pv - 1] = i # [i + 1..<length pv - 1]"
      by (simp add: upt_conv_Cons)
    with True 1 show ?thesis
      by (subst fanLoop.simps) simp
  next
    case False
    then show ?thesis
      by (subst fanLoop.simps) simp
  qed
qed

lemma fold_emit_vertices:
  "vertices (fold (emitTriangle pv n) js st)
     = vertices st @ concat (map (trianglePositions pv) js)"
  by (induction js arbitrary: st) (simp_all add: emitTriangle_def trianglePositions_def Let_def)

lemma fold_emit_normals:
  "normals (fold (emitTriangle pv n) js st)
     = normals st @ concat (replicate (length js) (triangleNormals n))"
  by (induction js arbitrary: st) (simp_all add: emitTriangle_def triangleNormals_def Let_def)

lemma fold_emit_vertexIndex:
  "vertexIndex (fold (emitTriangle pv n) js st) = vertexIndex st + 3 * length js"
  by (induction js arbitrary: st) (simp_all add: emitTriangle_def Let_def)

lemma upt_three: "[k..<k + 3] = [k, k + 1, k + 2]"
  by (simp add: upt_rec)

lemma fold_emit_indices:
  "indices (fold (emitTriangle pv n) js st)
     = indices st @ [vertexIndex st..<vertexIndex st + 3 * length js]"
proof (induction js arbitrary: st)
  case Nil
  show ?case by simp
next
  case (Cons j js)
  have "[vertexIndex st..<vertexIndex st + 3 + 3 * length js]
          = [vertexIndex st..<vertexIndex st + 3]
            @ [vertexIndex st + 3..<vertexIndex st + 3 + 3 * length js]"
    by (rule upt_add_eq_append) simp
  then have "[vertexIndex st..<vertexIndex st + 3 * length (j # js)]
          = [vertexIndex st, vertexIndex st + 1, vertexIndex st + 2]
            @ [vertexIndex st + 3..<vertexIndex st + 3 + 3 * length js]"
    by (simp add: upt_three add.assoc)
  then show ?case
    using Cons [of "emitTriangle pv n j st"]
    by (simp add: emitTriangle_def Let_def)
qed

lemma length_positions:
  "length (concat (map (trianglePositions pv) js)) = 9 * length js"
  by (induction js) (simp_all add: trianglePositions_def)

lemma length_triangleNormals:
  "length (concat (replicate k (triangleNormals n))) = 9 * k"
  by (induction k) (simp_all add: triangleNormals_def)

lemma fold_emit_wellFormed:
  assumes "wellFormed st"
  shows "wellFormed (fold (emitTriangle pv n) js st)"
proof -
  have "[0..<vertexIndex st + 3 * length js]
          = [0..<vertexIndex st] @ [vertexIndex st..<vertexIndex st + 3 * length js]"
    by (rule upt_add_eq_append) simp
  with assms show ?thesis
    by (simp add: wellFormed_def fold_emit_indices fold_emit_vertices fold_emit_normals
        fold_emit_vertexIndex length_positions length_triangleNormals)
qed

section \<open>The loop over the polygons\<close>

lemma processPolygon_wellFormed:
  "wellFormed st \<Longrightarrow> wellFormed (processPolygon p st)"
  by (simp add: processPolygon_def fanLoop_fold fold_emit_wellFormed)

lemma polygonLoop_wellFormed:
  "wellFormed st \<Longrightarrow> wellFormed (polygonLoop ps st)"
  by (induction ps arbitrary: st) (simp_all add: processPolygon_wellFormed)

lemma processPolygon_vertexIndex:
  "vertexIndex (processPolygon p st) = vertexIndex st + 3 * (length (polyVertices p) - 2)"
  by (simp add: processPolygon_def fanLoop_fold fold_emit_vertexIndex numeral_2_eq_2)

lemma polygonLoop_vertexIndex:
  "vertexIndex (polygonLoop ps st) = vertexIndex st + 3 * triangleCount ps"
  by (induction ps arbitrary: st) (simp_all add: processPolygon_vertexIndex triangleCount_def)

lemma initBuffers_wellFormed: "wellFormed initBuffers"
  by (simp add: wellFormed_def initBuffers_def)

lemma compiled_wellFormed: "wellFormed (polygonLoop ps initBuffers)"
  by (rule polygonLoop_wellFormed) (rule initBuffers_wellFormed)

lemma compiled_vertexIndex: "vertexIndex (polygonLoop ps initBuffers) = 3 * triangleCount ps"
  by (simp add: polygonLoop_vertexIndex initBuffers_def)

lemma compiled_indices: "indices (polygonLoop ps initBuffers) = [0..<3 * triangleCount ps]"
  using compiled_wellFormed [of ps] by (simp add: wellFormed_def compiled_vertexIndex)

lemma compiled_vertices_length:
  "length (vertices (polygonLoop ps initBuffers)) = 9 * triangleCount ps"
  using compiled_wellFormed [of ps] by (simp add: wellFormed_def compiled_vertexIndex)

lemma compiled_normals_length:
  "length (normals (polygonLoop ps initBuffers)) = 9 * triangleCount ps"
  using compiled_wellFormed [of ps] by (simp add: wellFormed_def compiled_vertexIndex)

lemma compiled_vertices_Nil:
  "vertices (polygonLoop ps initBuffers) = [] \<longleftrightarrow> triangleCount ps = 0"
  using compiled_vertices_length [of ps] by (simp only: length_0_conv [symmetric]) simp

text \<open>The index filter keeps every index the loop wrote.\<close>

lemma filter_keeps_all:
  "filter (\<lambda>idx. real idx \<le> real (9 * T) / 3 - 1) [0..<3 * T] = [0..<3 * T]"
proof -
  have "\<forall>idx\<in>set [0..<3 * T]. real idx \<le> real (9 * T) / 3 - 1"
  proof
    fix idx assume "idx \<in> set [0..<3 * T]"
    then have "idx + 1 \<le> 3 * T" by simp
    then have "real (idx + 1) \<le> real (3 * T)" by (simp only: of_nat_le_iff)
    then show "real idx \<le> real (9 * T) / 3 - 1" by simp
  qed
  then show ?thesis by (simp only: filter_True)
qed

text \<open>The result of the \<^verbatim>\<open>try\<close> block on a solid, in closed form.\<close>

lemma convert_try_Geom3:
  "convertToThreeGeometry_try (Geom3 ps) =
     (if triangleCount ps = 0
      then Inl (Error ''No valid vertices generated from JSCAD geometry'')
      else Inr \<lparr> position = vertices (polygonLoop ps initBuffers),
                 normal = normals (polygonLoop ps initBuffers),
                 index = Some [0..<3 * triangleCount ps] \<rparr>)"
proof (cases "triangleCount ps = 0")
  case True
  then show ?thesis
    by (simp add: convertToThreeGeometry_try_def toPolygons_def Let_def compiled_vertices_Nil)
next
  case False
  then have pos: "0 < triangleCount ps" by simp
  then have "(3 * triangleCount ps) mod 3 = 0" by simp
  with pos show ?thesis
    by (simp add: convertToThreeGeometry_try_def toPolygons_def Let_def
        compiled_vertices_Nil compiled_vertices_length compiled_indices filter_keeps_all)
qed

lemma convert_try_NotGeom3:
  "convertToThreeGeometry_try NotGeom3 = Inl (TypeError ''Cannot read properties of undefined'')"
  by (simp add: convertToThreeGeometry_try_def toPolygons_def)

lemma fallback_position_length:
  "length (position (createFallbackGeometry cvn)) = 108"
  by (simp add: createFallbackGeometry_def Let_def)

lemma triangleCount_degenerate:
  "(\<forall>p\<in>set ps. length (polyVertices p) < 3) \<Longrightarrow> triangleCount ps = 0"
  by (induction ps) (auto simp: triangleCount_def)

section \<open>Concrete compilations\<close>

lemma unitSquare_vertices:
  "polyVertices unitSquare = [(0, 0, 0), (1, 0, 0), (1, 1, 0), (0, 1, 0)]"
  by (simp add: unitSquare_def polyVertices_def)

lemma unitSquare_normal: "faceNormal unitSquare = (0, 0, 1)"
proof -
  have "polygon_plane unitSquare = None"
    by (simp add: unitSquare_def)
  then show ?thesis
    by (simp add: faceNormal_def unitSquare_vertices crossNormal_def c0_def c1_def c2_def)
qed

lemma unitSquare_buffers:
  "processPolygon unitSquare initBuffers =
     \<lparr> vertices = [0, 0, 0, 1, 0, 0, 1, 1, 0, 0, 0, 0, 1, 1, 0, 0, 1, 0],
       normals = [0, 0, 1, 0, 0, 1, 0, 0, 1, 0, 0, 1, 0, 0, 1, 0, 0, 1],
       indices = [0, 1, 2, 3, 4, 5],
       vertexIndex = 6 \<rparr>"
proof -
  have "[1..<length (polyVertices unitSquare) - 1] = [1, 2]"
    by (simp add: unitSquare_vertices upt_rec)
  then show ?thesis
    by (simp add: processPolygon_def fanLoop_fold unitSquare_normal)
       (simp add: unitSquare_vertices emitTriangle_def initBuffers_def c0_def c1_def c2_def)
qed

lemma unitSquare_compiled:
  "convertToThreeGeometry_try (Geom3 [unitSquare]) = Inr unitSquareMesh"
  by (simp add: convertToThreeGeometry_try_def toPolygons_def unitSquare_buffers
      unitSquareMesh_def)

lemma collinear_vertices:
  "polyVertices collinear = [(0, 0, 0), (1, 0, 0), (2, 0, 0)]"
  by (simp add: collinear_def polyVertices_def)

lemma collinear_normal: "faceNormal collinear = (0, 0, 0)"
proof -
  have "polygon_plane collinear = None"
    by (simp add: collinear_def)
  then show ?thesis
    by (simp add: faceNormal_def collinear_vertices crossNormal_def c0_def c1_def c2_def)
qed

lemma collinear_buffers:
  "processPolygon collinear initBuffers =
     \<lparr> vertices = [0, 0, 0, 1, 0, 0, 2, 0, 0],
       normals = [0, 0, 0, 0, 0, 0, 0, 0, 0],
       indices = [0, 1, 2],
       vertexIndex = 3 \<rparr>"
proof -
  have "[1..<length (polyVertices collinear) - 1] = [1]"
    by (simp add: collinear_vertices upt_rec)
  then show ?thesis
    by (simp add: processPolygon_def fanLoop_fold collinear_normal)
       (simp add: collinear_vertices emitTriangle_def initBuffers_def c0_def c1_def c2_def)
qed

lemma segment_vertices: "polyVertices segment = [(0, 0, 0), (1, 0, 0)]"
  by (simp add: segment_def polyVertices_def)

section \<open>Properties of the mesh compiler\<close>

text \<open>C7. For every polygon with \<open>N\<close> points the compiler appends exactly \<open>max 0 (N - 2)\<close>
  triangles to the buffers: the triangles (point 0, point \<open>i\<close>, point \<open>i + 1\<close>) for
  \<open>i = 1, \<dots>, N - 2\<close>, each with three consecutive indices; a polygon with fewer than
  three points leaves the buffers as they are, without an error.\<close>

theorem polygon_fan_triangles:
  "vertices (processPolygon p st)
     = vertices st
       @ concat (map (trianglePositions (polyVertices p)) [1..<length (polyVertices p) - 1])
   \<and> int (length [1..<length (polyVertices p) - 1])
       = max 0 (int (length (polyVertices p)) - 2)
   \<and> normals (processPolygon p st)
       = normals st
         @ concat (replicate (length (polyVertices p) - 2) (triangleNormals (faceNormal p)))
   \<and> indices (processPolygon p st)
       = indices st @ [vertexIndex st..<vertexIndex st + 3 * (length (polyVertices p) - 2)]
   \<and> vertexIndex (processPolygon p st)
       = vertexIndex st + 3 * (length (polyVertices p) - 2)
   \<and> (length (polyVertices p) < 3 \<longrightarrow> processPolygon p st = st)"
proof (cases "length (polyVertices p) < 3")
  case True
  then have "length (polyVertices p) - 2 = 0" "[1..<length (polyVertices p) - 1] = []"
    by simp_all
  with True show ?thesis
    by (simp add: processPolygon_def)
next
  case False
  then have "length [1..<length (polyVertices p) - 1] = length (polyVertices p) - 2"
    by simp
  with False show ?thesis
    by (simp add: processPolygon_def fanLoop_fold fold_emit_vertices fold_emit_normals
        fold_emit_indices fold_emit_vertexIndex)
qed

theorem polygon_fan_triangles_witness:
  "length (polyVertices segment) < 3 \<and> processPolygon segment initBuffers = initBuffers
   \<and> vertices (processPolygon unitSquare initBuffers)
       = [0, 0, 0, 1, 0, 0, 1, 1, 0, 0, 0, 0, 1, 1, 0, 0, 1, 0]"
proof -
  have "[1..<length (polyVertices unitSquare) - 1] = [1, 2]"
    by (simp add: unitSquare_vertices upt_rec)
  then show ?thesis
    using polygon_fan_triangles [of segment initBuffers]
      polygon_fan_triangles [of unitSquare initBuffers]
    by (simp add: segment_vertices)
       (simp add: unitSquare_vertices trianglePositions_def initBuffers_def c0_def c1_def c2_def)
qed

text \<open>C10. Every index the triangulation loop writes is below the final vertex count, so
  the index filter removes nothing; whenever the \<^verbatim>\<open>try\<close> block succeeds, the index buffer is
  present and is \<open>0, 1, \<dots>, 3T - 1\<close> for the \<open>T\<close> emitted triangles (with \<open>T > 0\<close> and
  \<open>3T\<close> vertices), so the branch that leaves the geometry without index is never taken.\<close>

theorem index_buffer_sequential:
  assumes "convertToThreeGeometry_try (Geom3 ps) = Inr m"
  shows "index m = Some [0..<3 * triangleCount ps]
     \<and> 0 < triangleCount ps
     \<and> length (position m) = 3 * (3 * triangleCount ps)
     \<and> (\<forall>idx\<in>set (indices (polygonLoop ps initBuffers)).
           idx < length (vertices (polygonLoop ps initBuffers)) div 3)
     \<and> filter (\<lambda>idx. real idx
                  \<le> real (length (vertices (polygonLoop ps initBuffers))) / 3 - 1)
          (indices (polygonLoop ps initBuffers))
        = indices (polygonLoop ps initBuffers)"
proof -
  from assms have pos: "0 < triangleCount ps"
    by (simp add: convert_try_Geom3 split: if_splits)
  with assms have m: "m = \<lparr> position = vertices (polygonLoop ps initBuffers),
                            normal = normals (polygonLoop ps initBuffers),
                            index = Some [0..<3 * triangleCount ps] \<rparr>"
    by (simp add: convert_try_Geom3)
  have below: "\<forall>idx\<in>set (indices (polygonLoop ps initBuffers)).
           idx < length (vertices (polygonLoop ps initBuffers)) div 3"
    by (simp add: compiled_indices compiled_vertices_length)
  have keep: "filter (\<lambda>idx. real idx
                  \<le> real (length (vertices (polygonLoop ps initBuffers))) / 3 - 1)
          (indices (polygonLoop ps initBuffers))
        = indices (polygonLoop ps initBuffers)"
    by (simp only: compiled_indices compiled_vertices_length filter_keeps_all)
  from m have "index m = Some [0..<3 * triangleCount ps]"
    and "length (position m) = 3 * (3 * triangleCount ps)"
    by (simp_all add: compiled_vertices_length)
  with pos below keep show ?thesis by blast
qed

theorem index_buffer_sequential_witness:
  "convertToThreeGeometry_try (Geom3 [unitSquare]) = Inr unitSquareMesh
   \<and> index unitSquareMesh = Some [0..<3 * triangleCount [unitSquare]]
   \<and> triangleCount [unitSquare] = 2"
  using index_buffer_sequential [OF unitSquare_compiled]
  by (simp add: unitSquare_compiled triangleCount_def unitSquare_vertices)

text \<open>C6. Whenever the mesh compiler succeeds (on any solid, convex or not), the position
  and normal buffers have the same length, and the index buffer is absent or has a length
  divisible by 3 with every entry below the vertex count.\<close>

theorem mesh_buffers_consistent:
  assumes "convertToThreeGeometry_try g = Inr m"
  shows "length (position m) = length (normal m)
     \<and> (case index m of
          None \<Rightarrow> True
        | Some ix \<Rightarrow> length ix mod 3 = 0 \<and> (\<forall>i\<in>set ix. i < length (position m) div 3))"
proof (cases g)
  case (Geom3 ps)
  with assms have "m = \<lparr> position = vertices (polygonLoop ps initBuffers),
                         normal = normals (polygonLoop ps initBuffers),
                         index = Some [0..<3 * triangleCount ps] \<rparr>"
    by (simp add: convert_try_Geom3 split: if_splits)
  then show ?thesis
    by (simp add: compiled_vertices_length compiled_normals_length)
next
  case NotGeom3
  with assms show ?thesis
    by (simp add: convert_try_NotGeom3)
qed

theorem mesh_buffers_consistent_witness:
  "convertToThreeGeometry_try (Geom3 [unitSquare]) = Inr unitSquareMesh
   \<and> length (position unitSquareMesh) = length (normal unitSquareMesh)
   \<and> index unitSquareMesh = Some [0, 1, 2, 3, 4, 5]"
  using mesh_buffers_consistent [OF unitSquare_compiled]
  by (simp add: unitSquare_compiled) (simp add: unitSquareMesh_def)

text \<open>C8. For a solid without polygons, or whose polygons all have fewer than three
  points, the accumulated position buffer is empty, the \<^verbatim>\<open>try\<close> block fails with the
  error for an empty mesh, and the conversion returns the fallback cube, whose position
  buffer is not empty; on no input does the conversion return an empty position
  buffer.\<close>

theorem degenerate_solid_falls_back:
  assumes "\<forall>p\<in>set ps. length (polyVertices p) < 3"
  shows "vertices (polygonLoop ps initBuffers) = []
     \<and> convertToThreeGeometry_try (Geom3 ps)
         = Inl (Error ''No valid vertices generated from JSCAD geometry'')
     \<and> convertToThreeGeometry cvn (Geom3 ps) = createFallbackGeometry cvn
     \<and> position (createFallbackGeometry cvn) \<noteq> []
     \<and> position (convertToThreeGeometry cvn g) \<noteq> []"
proof -
  from assms have zero: "triangleCount ps = 0"
    by (rule triangleCount_degenerate)
  have fb: "position (createFallbackGeometry cvn) \<noteq> []"
    using fallback_position_length [of cvn] by auto
  have "position (convertToThreeGeometry cvn g) \<noteq> []"
  proof (cases g)
    case (Geom3 qs)
    show ?thesis
    proof (cases "triangleCount qs = 0")
      case True
      with Geom3 fb show ?thesis
        by (simp add: convertToThreeGeometry_def convert_try_Geom3)
    next
      case False
      with Geom3 show ?thesis
        by (simp add: convertToThreeGeometry_def convert_try_Geom3 compiled_vertices_Nil)
    qed
  next
    case NotGeom3
    with fb show ?thesis
      by (simp add: convertToThreeGeometry_def convert_try_NotGeom3)
  qed
  with zero fb show ?thesis
    by (simp add: convertToThreeGeometry_def convert_try_Geom3 compiled_vertices_Nil)
qed

theorem degenerate_solid_falls_back_witness:
  "length (polyVertices segment) < 3
   \<and> convertToThreeGeometry (\<lambda>vs. vs) (Geom3 [segment]) = createFallbackGeometry (\<lambda>vs. vs)
   \<and> convertToThreeGeometry (\<lambda>vs. vs) (Geom3 []) = createFallbackGeometry (\<lambda>vs. vs)
   \<and> length (position (createFallbackGeometry (\<lambda>vs. vs))) = 108"
proof -
  have h1: "\<forall>p\<in>set [segment]. length (polyVertices p) < 3"
    by (simp add: segment_vertices)
  have h2: "\<forall>p\<in>set ([] :: polygon list). length (polyVertices p) < 3"
    by simp
  show ?thesis
    using h1 degenerate_solid_falls_back [OF h1, of "\<lambda>vs. vs" NotGeom3]
      degenerate_solid_falls_back [OF h2, of "\<lambda>vs. vs" NotGeom3]
    by (simp add: fallback_position_length segment_vertices)
qed

text \<open>C2, amended. Compiling the solid made of the single square (0,0,0), (1,0,0), (1,1,0),
  (0,1,0) without stored plane normal gives the face normal (0,0,1), exactly 2 triangles, a
  position buffer of 18 numbers, and the index buffer [0,1,2,3,4,5]: every triangle has
  its own three vertices, none is shared.\<close>

theorem unit_square_mesh:
  "faceNormal unitSquare = (0, 0, 1)
   \<and> triangleCount [unitSquare] = 2
   \<and> convertToThreeGeometry_try (Geom3 [unitSquare]) = Inr unitSquareMesh
   \<and> length (position unitSquareMesh) = 18
   \<and> normal unitSquareMesh = concat (replicate 6 [0, 0, 1])
   \<and> index unitSquareMesh = Some [0, 1, 2, 3, 4, 5]"
  by (simp add: unitSquare_normal unitSquare_compiled triangleCount_def unitSquare_vertices)
     (simp add: unitSquareMesh_def numeral_eq_Suc)

text \<open>C2 as stated fails: the index buffer of the compiled square is not [0,1,2,0,2,3].\<close>

theorem unit_square_index_counterexample:
  "convertToThreeGeometry_try (Geom3 [unitSquare]) = Inr unitSquareMesh
   \<and> index unitSquareMesh \<noteq> Some [0, 1, 2, 0, 2, 3]"
  by (simp add: unitSquare_compiled) (simp add: unitSquareMesh_def)

text \<open>C4 at three collinear points (0,0,0), (1,0,0), (2,0,0) without stored plane normal:
  the cross product is the zero vector, its length is not positive, and the compiler
  writes the zero vector as the normal of the triangle, not (0,0,1).\<close>

theorem collinear_normal_is_zero:
  "faceNormal collinear = (0, 0, 0)
   \<and> convertToThreeGeometry_try (Geom3 [collinear])
       = Inr \<lparr> position = [0, 0, 0, 1, 0, 0, 2, 0, 0],
               normal = [0, 0, 0, 0, 0, 0, 0, 0, 0],
               index = Some [0, 1, 2] \<rparr>"
  by (simp add: collinear_normal)
     (simp add: convertToThreeGeometry_try_def toPolygons_def collinear_buffers)

section \<open>The fallback cube\<close>

lemma fallback_coordinates:
  "set (position (createFallbackGeometry cvn)) = {- 5, 5}"
  by (auto simp: createFallbackGeometry_def Let_def)

lemma fallback_not_indexed: "index (createFallbackGeometry cvn) = None"
  by (simp add: createFallbackGeometry_def Let_def)

lemma fallback_normals:
  "normal (createFallbackGeometry cvn) = cvn (position (createFallbackGeometry cvn))"
  by (simp add: createFallbackGeometry_def Let_def)

section \<open>Properties of the sandbox executor\<close>

lemma require_root: "sandbox_require jscad ''@jscad/modeling'' = Inr jscad"
  by (simp add: sandbox_require_def)

lemma require_outside_prefix:
  assumes "moduleName \<noteq> ''@jscad/modeling''"
    and "\<not> startsWith moduleName ''@jscad/modeling/''"
  shows "sandbox_require jscad moduleName
           = Inl (Error (''Module '' @ moduleName @ '' not found''))"
  using assms by (simp add: sandbox_require_def)

text \<open>The entry point is the first truthy one of the two \<^verbatim>\<open>main\<close> bindings, that of
  \<^verbatim>\<open>module.exports\<close> first; it is called when it is a function.\<close>

lemma main_selection:
  assumes "code (sandbox_require jscad) = Finished module_exports exports"
    and "get_prop module_exports ''main'' = Inr m1"
    and "get_prop (Obj exports) ''main'' = Inr m2"
  shows "executeJSCAD jscad cvn code =
     (case (if truthy m1 then m1 else m2) of
        Func outcome \<Rightarrow>
          (case outcome of
             Inl e \<Rightarrow> Inl e
           | Inr g \<Rightarrow> Inr (convertToThreeGeometry cvn g))
      | _ \<Rightarrow> Inl (Error ''No main function found in JSCAD code''))"
  using assms
  by (simp add: executeJSCAD_def callable_def split: jsval.splits)

lemma module_exports_null:
  "executeJSCAD jscad cvn (\<lambda>require. Finished Null exports)
     = Inl (TypeError ''Cannot read properties of null'')"
  by (simp add: executeJSCAD_def get_prop_def)

lemma split_nosuch:
  "split CHR ''/'' ''@jscad/modeling/nosuch'' = [''@jscad'', ''modeling'', ''nosuch'']"
  by simp

lemma split_nosuch_deeper:
  "split CHR ''/'' ''@jscad/modeling/nosuch/deeper''
     = [''@jscad'', ''modeling'', ''nosuch'', ''deeper'']"
  by simp

lemma split_primitives:
  "split CHR ''/'' ''@jscad/modeling/primitives'' = [''@jscad'', ''modeling'', ''primitives'']"
  by simp

text \<open>C3 at the identifier \<^verbatim>\<open>@jscad/modeling/nosuch\<close>: the library has no property
  \<^verbatim>\<open>nosuch\<close>, and \<^verbatim>\<open>require\<close> returns \<^verbatim>\<open>undefined\<close> instead of raising the error that an
  identifier outside the root prefix gets; one level deeper the failure is a
  \<^verbatim>\<open>TypeError\<close>, not that error either.\<close>

theorem require_unknown_subnamespace:
  "get_prop sampleLibrary ''nosuch'' = Inr Undefined
   \<and> sandbox_require sampleLibrary ''@jscad/modeling/nosuch'' = Inr Undefined
   \<and> sandbox_require sampleLibrary ''@jscad/modeling/nosuch/deeper''
       = Inl (TypeError ''Cannot read properties of undefined'')
   \<and> sandbox_require sampleLibrary ''@jscad/modeling/primitives''
       = Inr (Obj [(''cube'', Func (Inr (Geom3 [unitSquare])))])
   \<and> sandbox_require sampleLibrary ''fs'' = Inl (Error ''Module fs not found'')"
  by (simp add: sandbox_require_def startsWith_def split_nosuch split_nosuch_deeper
      split_primitives)
     (simp add: sampleLibrary_def get_prop_def)

text \<open>C5 at the program \<^verbatim>\<open>module.exports.main = 1; exports.main = () => square\<close>: the
  binding on \<^verbatim>\<open>exports\<close> is callable, yet the executor fails with the error for a missing
  entry point, because the truthy number on \<^verbatim>\<open>module.exports\<close> is selected. The same
  function bound on \<^verbatim>\<open>exports\<close> alone is found and invoked.\<close>

theorem shadowed_main_not_found:
  "shadowedMain (sandbox_require sampleLibrary)
     = Finished (Obj [(''main'', Num 1)]) [(''main'', Func (Inr (Geom3 [unitSquare])))]
   \<and> callable (Func (Inr (Geom3 [unitSquare])))
   \<and> executeJSCAD sampleLibrary (\<lambda>vs. vs) shadowedMain
       = Inl (Error ''No main function found in JSCAD code'')
   \<and> executeJSCAD sampleLibrary (\<lambda>vs. vs) exportsMain = Inr unitSquareMesh"
  by (simp add: executeJSCAD_def shadowedMain_def exportsMain_def get_prop_def truthy_def
      callable_def convertToThreeGeometry_def unitSquare_compiled)

text \<open>C1, amended. If the program finishes and neither the \<^verbatim>\<open>main\<close> binding of
  \<^verbatim>\<open>module.exports\<close> nor that of \<^verbatim>\<open>exports\<close> is callable (as for
  \<^verbatim>\<open>module.exports = {}\<close>), \<^verbatim>\<open>executeJSCAD\<close> fails: with the error for a missing entry
  point when \<^verbatim>\<open>module.exports\<close> is neither \<^verbatim>\<open>undefined\<close> nor \<^verbatim>\<open>null\<close>, and with the
  \<^verbatim>\<open>TypeError\<close> of reading \<^verbatim>\<open>main\<close> from it when the program has replaced it by one of
  the two (then there is no binding to call either). In every case the error is thrown
  again, not replaced by the fallback cube, and \<^verbatim>\<open>loadModel\<close> records its message and
  no geometry.\<close>

theorem missing_main_fails_outward:
  assumes "code (sandbox_require jscad) = Finished module_exports exports"
    and "case get_prop module_exports ''main'' of Inl e \<Rightarrow> True | Inr m1 \<Rightarrow> \<not> callable m1"
    and "case get_prop (Obj exports) ''main'' of Inl e \<Rightarrow> True | Inr m2 \<Rightarrow> \<not> callable m2"
  shows "executeJSCAD jscad cvn code
           = Inl (if module_exports = Undefined
                  then TypeError ''Cannot read properties of undefined''
                  else if module_exports = Null
                  then TypeError ''Cannot read properties of null''
                  else Error ''No main function found in JSCAD code'')
     \<and> loadModel jscad cvn code
         = \<lparr> geometry = None,
             error = Some (if module_exports = Undefined
                           then ''Cannot read properties of undefined''
                           else if module_exports = Null
                           then ''Cannot read properties of null''
                           else ''No main function found in JSCAD code'') \<rparr>"
proof -
  obtain m2 where m2: "get_prop (Obj exports) ''main'' = Inr m2"
    by (cases "map_of exports ''main''") (simp_all add: get_prop_def)
  with assms(3) have no2: "\<not> callable m2" by simp
  have exec: "executeJSCAD jscad cvn code
           = Inl (if module_exports = Undefined
                  then TypeError ''Cannot read properties of undefined''
                  else if module_exports = Null
                  then TypeError ''Cannot read properties of null''
                  else Error ''No main function found in JSCAD code'')"
  proof (cases "get_prop module_exports ''main''")
    case (Inl e)
    then have "(module_exports = Undefined
                  \<and> e = TypeError ''Cannot read properties of undefined'')
               \<or> (module_exports = Null \<and> e = TypeError ''Cannot read properties of null'')"
      by (cases module_exports) (auto simp: get_prop_def split: option.splits)
    with Inl assms(1) show ?thesis
      by (auto simp: executeJSCAD_def)
  next
    case (Inr m1)
    then have obj: "module_exports \<noteq> Undefined" "module_exports \<noteq> Null"
      by (auto simp: get_prop_def)
    from Inr assms(2) have no1: "\<not> callable m1" by simp
    from Inr assms(1) m2 no1 no2 obj show ?thesis
      by (simp add: executeJSCAD_def)
  qed
  then show ?thesis
    by (simp add: loadModel_def)
qed

theorem missing_main_fails_outward_witness:
  "emptyExports (sandbox_require sampleLibrary) = Finished (Obj []) []
   \<and> get_prop (Obj []) ''main'' = Inr Undefined
   \<and> \<not> callable Undefined
   \<and> executeJSCAD sampleLibrary (\<lambda>vs. vs) emptyExports
       = Inl (Error ''No main function found in JSCAD code'')
   \<and> loadModel sampleLibrary (\<lambda>vs. vs) emptyExports
       = \<lparr> geometry = None, error = Some ''No main function found in JSCAD code'' \<rparr>
   \<and> nullExports (sandbox_require sampleLibrary) = Finished Null []
   \<and> executeJSCAD sampleLibrary (\<lambda>vs. vs) nullExports
       = Inl (TypeError ''Cannot read properties of null'')
   \<and> loadModel sampleLibrary (\<lambda>vs. vs) nullExports
       = \<lparr> geometry = None, error = Some ''Cannot read properties of null'' \<rparr>"
proof -
  have run: "emptyExports (sandbox_require sampleLibrary) = Finished (Obj []) []"
    by (simp add: emptyExports_def)
  have get: "get_prop (Obj []) ''main'' = Inr Undefined"
    by (simp add: get_prop_def)
  have no: "\<not> callable Undefined"
    by (simp add: callable_def)
  have h: "case get_prop (Obj []) ''main'' of Inl e \<Rightarrow> True | Inr m \<Rightarrow> \<not> callable m"
    by (simp add: get no)
  have run0: "nullExports (sandbox_require sampleLibrary) = Finished Null []"
    by (simp add: nullExports_def)
  have h0: "case get_prop Null ''main'' of Inl e \<Rightarrow> True | Inr m \<Rightarrow> \<not> callable m"
    by (simp add: get_prop_def)
  from missing_main_fails_outward [where code = emptyExports and jscad = sampleLibrary
      and module_exports = "Obj []" and exports = "[]" and cvn = "\<lambda>vs. vs", OF run h h]
    missing_main_fails_outward [where code = nullExports and jscad = sampleLibrary
      and module_exports = Null and exports = "[]" and cvn = "\<lambda>vs. vs", OF run0 h0 h]
    run get no run0
  show ?thesis by simp
qed

text \<open>C1 as stated fails at \<^verbatim>\<open>module.exports = {}\<close>: the conversion does not return the
  fallback cube, it fails, and the viewer is left without geometry.\<close>

theorem missing_main_no_fallback_counterexample:
  "executeJSCAD sampleLibrary (\<lambda>vs. vs) emptyExports
     \<noteq> Inr (createFallbackGeometry (\<lambda>vs. vs))
   \<and> geometry (loadModel sampleLibrary (\<lambda>vs. vs) emptyExports)
       \<noteq> Some (createFallbackGeometry (\<lambda>vs. vs))"
  by (simp add: executeJSCAD_def loadModel_def emptyExports_def get_prop_def truthy_def
      callable_def)

end
